theory Spec2Isabelle
  imports Complex_Main "HOL-Library.AList"
begin

section \<open>The Chemical JSON codec of avogadrolibs (avogadro/io/cjsonformat.cpp)\<close>

text \<open>
  The development embeds \<^verbatim>\<open>CjsonFormat::read\<close> and \<^verbatim>\<open>CjsonFormat::write\<close>.
  The document is the tree \<^verbatim>\<open>Json::Value\<close> that \<^verbatim>\<open>Json::Reader::parse\<close> delivers;
  the molecule is a record of the arrays the codec reads and writes. \<^verbatim>\<open>Real\<close>
  (a C++ double) is rendered as \<open>real\<close>: rounding is not part of the model.
  \<^verbatim>\<open>Index\<close> is a 64-bit \<^verbatim>\<open>size_t\<close>, \<^verbatim>\<open>Json::Int\<close> and \<^verbatim>\<open>Json::UInt\<close> are 32 bits wide;
  the casts between them are written out with \<open>mod\<close>.
\<close>

subsection \<open>Json::Value\<close>

datatype json =
    JNull
  | JInt int
  | JUInt nat
  | JReal real
  | JString string
  | JBool bool
  | JArray "json list"
  | JObject "(string \<times> json) list"

datatype valueType =
  nullValue | intValue | uintValue | realValue | stringValue | booleanValue
  | arrayValue | objectValue

text \<open>Modelled from the spec: \<^verbatim>\<open>Json::Value::type\<close> of the bundled jsoncpp, which is
  not under src/; the tag of the tagged variant of section 9.\<close>

fun type_of :: "json \<Rightarrow> valueType" where
  "type_of JNull = nullValue"
| "type_of (JInt n) = intValue"
| "type_of (JUInt n) = uintValue"
| "type_of (JReal r) = realValue"
| "type_of (JString s) = stringValue"
| "type_of (JBool b) = booleanValue"
| "type_of (JArray xs) = arrayValue"
| "type_of (JObject kvs) = objectValue"

text \<open>Modelled from the spec: the type tests \<^verbatim>\<open>isObject\<close>, \<^verbatim>\<open>isArray\<close>, \<^verbatim>\<open>isString\<close>
  and \<^verbatim>\<open>isNumeric\<close> of jsoncpp (not under src/). Section 4.1 reads them as
  "is an object", "is an array", "of string type" and "numeric".\<close>

definition isObject :: "json \<Rightarrow> bool" where
  "isObject v = (type_of v = objectValue)"

definition isArray :: "json \<Rightarrow> bool" where
  "isArray v = (type_of v = arrayValue)"

definition isString :: "json \<Rightarrow> bool" where
  "isString v = (type_of v = stringValue)"

definition isNumeric :: "json \<Rightarrow> bool" where
  "isNumeric v = (type_of v = intValue \<or> type_of v = uintValue \<or> type_of v = realValue)"

text \<open>Modelled from the spec: \<^verbatim>\<open>Json::Value::size\<close> (not under src/): the number of
  elements of an array, of members of an object, and 0 for every other value.\<close>

fun size_value :: "json \<Rightarrow> nat" where
  "size_value (JArray xs) = length xs"
| "size_value (JObject kvs) = length kvs"
| "size_value v = 0"

text \<open>Modelled from the spec: \<^verbatim>\<open>Json::Value::empty\<close> (not under src/). Section 9:
  the empty check doubles as the presence check, so that an absent member (null) and a
  member that is present but empty (an array or an object without elements) are not
  told apart. A scalar is never empty.\<close>

definition empty_value :: "json \<Rightarrow> bool" where
  "empty_value v =
     (if type_of v = nullValue \<or> type_of v = arrayValue \<or> type_of v = objectValue
      then size_value v = 0 else False)"

text \<open>Modelled from the spec: \<^verbatim>\<open>Json::Value::operator[](const char *)\<close> (not under
  src/). On an object it is the member, null when the key is absent; on null it is null
  as well. On every other value the library stops with a failed assertion: \<open>None\<close>.\<close>

fun subscript :: "json \<Rightarrow> string \<Rightarrow> json option" where
  "subscript (JObject kvs) k = Some (case map_of kvs k of Some x \<Rightarrow> x | None \<Rightarrow> JNull)"
| "subscript JNull k = Some JNull"
| "subscript v k = None"

text \<open>The same access where the source has already checked that the value is an
  object (or took it from one), so that the assertion cannot fail.\<close>

definition member_of :: "json \<Rightarrow> string \<Rightarrow> json" where
  "member_of v k = (case subscript v k of Some x \<Rightarrow> x | None \<Rightarrow> JNull)"

text \<open>Modelled from the spec: \<^verbatim>\<open>Json::Value::get(index, default)\<close> (not under src/):
  the element at the index, the default value when the index is out of range. The
  source calls it on arrays only.\<close>

fun get_value :: "json \<Rightarrow> nat \<Rightarrow> json \<Rightarrow> json" where
  "get_value (JArray xs) i d = (if i < length xs then xs ! i else d)"
| "get_value v i d = d"

definition minInt :: int where "minInt = - (2 ^ 31)"
definition maxInt :: int where "maxInt = 2 ^ 31 - 1"

text \<open>C++ conversion of a double to an integer type: towards zero.\<close>

definition truncate :: "real \<Rightarrow> int" where
  "truncate r = (if 0 \<le> r then \<lfloor>r\<rfloor> else \<lceil>r\<rceil>)"

text \<open>Modelled from the spec: \<^verbatim>\<open>Json::Value::asInt\<close> (not under src/), the
  "truncated/cast" integer of section 4.1. A value that has no 32-bit integer reading
  (a string, an array, an object, a number out of range) makes the library throw:
  \<open>None\<close>.\<close>

fun asInt :: "json \<Rightarrow> int option" where
  "asInt JNull = Some 0"
| "asInt (JInt n) = (if minInt \<le> n \<and> n \<le> maxInt then Some n else None)"
| "asInt (JUInt n) = (if int n \<le> maxInt then Some (int n) else None)"
| "asInt (JReal r) =
     (if real_of_int minInt \<le> r \<and> r \<le> real_of_int maxInt then Some (truncate r) else None)"
| "asInt (JBool b) = Some (if b then 1 else 0)"
| "asInt v = None"

text \<open>Modelled from the spec: \<^verbatim>\<open>Json::Value::asDouble\<close> (not under src/).\<close>

fun asDouble :: "json \<Rightarrow> real option" where
  "asDouble JNull = Some 0"
| "asDouble (JInt n) = Some (real_of_int n)"
| "asDouble (JUInt n) = Some (real n)"
| "asDouble (JReal r) = Some r"
| "asDouble (JBool b) = Some (if b then 1 else 0)"
| "asDouble v = None"

text \<open>Modelled from the spec: \<^verbatim>\<open>Json::Value::asString\<close> (not under src/); the source
  calls it on strings only.\<close>

fun asString :: "json \<Rightarrow> string" where
  "asString (JString s) = s"
| "asString v = []"

text \<open>\<^verbatim>\<open>static_cast<unsigned char>\<close>, \<^verbatim>\<open>static_cast<Index>\<close> and
  \<^verbatim>\<open>static_cast<Value::UInt>\<close>.\<close>

definition to_uchar :: "int \<Rightarrow> nat" where
  "to_uchar n = nat (n mod 256)"

definition to_Index :: "int \<Rightarrow> nat" where
  "to_Index n = nat (n mod 2 ^ 64)"

definition to_UInt :: "nat \<Rightarrow> nat" where
  "to_UInt n = n mod 2 ^ 32"

subsection \<open>Core::Molecule\<close>

type_synonym Vector3 = "real \<times> real \<times> real"
type_synonym Vector2 = "real \<times> real"

record unit_cell =
  cell_a :: real
  cell_b :: real
  cell_c :: real
  cell_alpha :: real
  cell_beta :: real
  cell_gamma :: real

datatype variant = VNull | VBool bool | VInt int | VDouble real | VString string

datatype scfType = Rhf | Uhf | Rohf | Unknown

text \<open>A basis set is a \<^verbatim>\<open>GaussianSet\<close> with its SCF type, or some other subclass of
  \<^verbatim>\<open>BasisSet\<close> (the \<^verbatim>\<open>dynamic_cast\<close> of the encoder tells them apart).\<close>

datatype basis_set = GaussianSet scfType | OtherBasisSet

text \<open>A bond: the indices of its two atoms and its order (an unsigned char).\<close>

record bond =
  atom1 :: nat
  atom2 :: nat
  bond_order :: nat

record molecule =
  atomicNumbers :: "nat list"
  positions2d :: "Vector2 list"
  positions3d :: "Vector3 list"
  bonds :: "bond list"
  moldata :: "(string \<times> variant) list"
  unitCell :: "unit_cell option"
  basisSet :: "basis_set option"

definition emptyMolecule :: molecule where
  "emptyMolecule = \<lparr>atomicNumbers = [], positions2d = [], positions3d = [],
     bonds = [], moldata = [], unitCell = None, basisSet = None\<rparr>"

definition atomCount :: "molecule \<Rightarrow> nat" where
  "atomCount m = length (atomicNumbers m)"

definition bondCount :: "molecule \<Rightarrow> nat" where
  "bondCount m = length (bonds m)"

text \<open>Modelled from the spec: \<^verbatim>\<open>Molecule::addAtom\<close> (core/molecule, not under src/),
  the append-atom of section 6.\<close>

definition addAtom :: "nat \<Rightarrow> molecule \<Rightarrow> molecule" where
  "addAtom z m = m\<lparr>atomicNumbers := atomicNumbers m @ [z]\<rparr>"

text \<open>Modelled from the spec: \<^verbatim>\<open>Atom::setPosition3d\<close> and \<^verbatim>\<open>Atom::setPosition2d\<close>
  (not under src/), the set-atom-position of section 6. The positions are arrays beside
  the atoms (the encoder compares their sizes with the atom count); setting the
  position of atom \<open>i\<close> extends a shorter array with zero vectors up to index \<open>i\<close>.\<close>

definition setPosition3d :: "nat \<Rightarrow> Vector3 \<Rightarrow> molecule \<Rightarrow> molecule" where
  "setPosition3d i p m =
     (let ps = positions3d m;
          ps' = (if i < length ps then ps else ps @ replicate (i + 1 - length ps) (0, 0, 0))
      in m\<lparr>positions3d := ps'[i := p]\<rparr>)"

definition setPosition2d :: "nat \<Rightarrow> Vector2 \<Rightarrow> molecule \<Rightarrow> molecule" where
  "setPosition2d i p m =
     (let ps = positions2d m;
          ps' = (if i < length ps then ps else ps @ replicate (i + 1 - length ps) (0, 0))
      in m\<lparr>positions2d := ps'[i := p]\<rparr>)"

text \<open>Modelled from the spec: \<^verbatim>\<open>Molecule::atom\<close> and \<^verbatim>\<open>Molecule::addBond\<close> (not
  under src/), the append-bond(atom-index, atom-index) of section 6. An atom handle is
  its index; a new bond has order 1 (section 3: a missing order defaults to 1).\<close>

definition addBond :: "nat \<Rightarrow> nat \<Rightarrow> molecule \<Rightarrow> molecule" where
  "addBond i j m = m\<lparr>bonds := bonds m @ [\<lparr>atom1 = i, atom2 = j, bond_order = 1\<rparr>]\<rparr>"

text \<open>Modelled from the spec: \<^verbatim>\<open>Molecule::bond\<close> and \<^verbatim>\<open>Bond::setOrder\<close> (not
  under src/), the set-bond-order of section 6, on the bond with index \<open>i\<close>. The decoder
  calls it below the number of bonds it has just added.\<close>

definition setOrder :: "nat \<Rightarrow> nat \<Rightarrow> molecule \<Rightarrow> molecule" where
  "setOrder i k m =
     (if i < length (bonds m)
      then m\<lparr>bonds := (bonds m)[i := (bonds m ! i)\<lparr>bond_order := k\<rparr>]\<rparr>
      else m)"

text \<open>Modelled from the spec: \<^verbatim>\<open>Molecule::setData\<close> and \<^verbatim>\<open>Molecule::data\<close> (not
  under src/), the string-keyed metadata map of section 3; an absent key reads as the
  null variant.\<close>

definition setData :: "string \<Rightarrow> variant \<Rightarrow> molecule \<Rightarrow> molecule" where
  "setData k v m = m\<lparr>moldata := AList.update k v (moldata m)\<rparr>"

definition data :: "molecule \<Rightarrow> string \<Rightarrow> variant" where
  "data m k = (case map_of (moldata m) k of Some v \<Rightarrow> v | None \<Rightarrow> VNull)"

definition setUnitCell :: "unit_cell \<Rightarrow> molecule \<Rightarrow> molecule" where
  "setUnitCell uc m = m\<lparr>unitCell := Some uc\<rparr>"

text \<open>What the source takes from headers that are not under src/: the two conversion
  factors and the Coordinate Transformer of \<^verbatim>\<open>CrystalTools\<close>/\<^verbatim>\<open>UnitCell\<close>. They are
  parameters of the codec.\<close>

record env =
  DEG_TO_RAD :: real
  RAD_TO_DEG :: real
  toCartesian :: "unit_cell \<Rightarrow> Vector3 \<Rightarrow> Vector3"
  toFractional :: "unit_cell \<Rightarrow> Vector3 \<Rightarrow> Vector3"

subsection \<open>The decoder's state and outcome\<close>

text \<open>The format object accumulates its messages (\<^verbatim>\<open>appendError\<close>); the molecule is
  mutated in place. A call of \<^verbatim>\<open>read\<close> returns a status, or is cut short by an
  assertion or exception of the JSON library.\<close>

record rstate =
  errors :: "string list"
  mol :: molecule

datatype outcome = Continue rstate | Returned bool rstate | Aborted

definition appendError :: "string \<Rightarrow> rstate \<Rightarrow> rstate" where
  "appendError msg st = st\<lparr>errors := errors st @ [msg]\<rparr>"

text \<open>\<^verbatim>\<open>appendError(msg); return false;\<close>\<close>

definition failWith :: "string \<Rightarrow> rstate \<Rightarrow> outcome" where
  "failWith msg st = Returned False (appendError msg st)"

fun andThen :: "outcome \<Rightarrow> (rstate \<Rightarrow> outcome) \<Rightarrow> outcome" where
  "andThen (Continue st) f = f st"
| "andThen (Returned b st) f = Returned b st"
| "andThen Aborted f = Aborted"

subsection \<open>CjsonFormat::read\<close>

datatype parsed = ParseError string | Parsed json

text \<open>Lines 65-74: the root must be an object and carry a non-empty
  \<^verbatim>\<open>chemical json\<close> member.\<close>

definition read_identity :: "json \<Rightarrow> rstate \<Rightarrow> outcome" where
  "read_identity doc st =
     (if \<not> isObject doc then failWith ''Error: Input is not a JSON object.'' st
      else if empty_value (member_of doc ''chemical json'')
      then failWith ''Error: no \"chemical json\" key found.'' st
      else Continue st)"

text \<open>Lines 77-82: name and inchi.\<close>

definition read_string_data :: "string \<Rightarrow> json \<Rightarrow> rstate \<Rightarrow> rstate" where
  "read_string_data key doc st =
     (let value = member_of doc key
      in if \<not> empty_value value \<and> isString value
         then st\<lparr>mol := setData key (VString (asString value)) (mol st)\<rparr>
         else st)"

definition read_names :: "json \<Rightarrow> rstate \<Rightarrow> outcome" where
  "read_names doc st =
     Continue (read_string_data ''inchi'' doc (read_string_data ''name'' doc st))"

text \<open>Lines 84-104: the unit cell.\<close>

definition read_unit_cell :: "env \<Rightarrow> json \<Rightarrow> rstate \<Rightarrow> outcome" where
  "read_unit_cell e doc st =
     (let value = member_of doc ''unit cell''
      in if type_of value = objectValue
         then
           if \<not> isNumeric (member_of value ''a'') \<or>
              \<not> isNumeric (member_of value ''b'') \<or>
              \<not> isNumeric (member_of value ''c'') \<or>
              \<not> isNumeric (member_of value ''alpha'') \<or>
              \<not> isNumeric (member_of value ''beta'') \<or>
              \<not> isNumeric (member_of value ''gamma'')
           then failWith (''Invalid unit cell specification: a, b, c, alpha, beta, gamma'' @
                          '' must be present and numeric.'') st
           else
             (case map (\<lambda>k. asDouble (member_of value k))
                     [''a'', ''b'', ''c'', ''alpha'', ''beta'', ''gamma''] of
                [Some a, Some b, Some c, Some al, Some be, Some ga] \<Rightarrow>
                  Continue (st\<lparr>mol := setUnitCell
                     \<lparr>cell_a = a, cell_b = b, cell_c = c,
                      cell_alpha = al * DEG_TO_RAD e,
                      cell_beta = be * DEG_TO_RAD e,
                      cell_gamma = ga * DEG_TO_RAD e\<rparr> (mol st)\<rparr>)
              | _ \<Rightarrow> Aborted)
         else Continue st)"

text \<open>Lines 136-137: one atom per entry of the number array.\<close>

fun addAtoms :: "json \<Rightarrow> nat list \<Rightarrow> molecule \<Rightarrow> molecule option" where
  "addAtoms value [] m = Some m"
| "addAtoms value (i # is) m =
     (case asInt (get_value value i (JInt 0)) of
        None \<Rightarrow> None
      | Some z \<Rightarrow> addAtoms value is (addAtom (to_uchar z) m))"

text \<open>Lines 107-142: the atoms.\<close>

definition read_atoms :: "json \<Rightarrow> rstate \<Rightarrow> outcome" where
  "read_atoms doc st =
     (let atoms = member_of doc ''atoms''
      in if empty_value atoms then failWith ''Error: no \"atom\" key found'' st
         else if type_of atoms \<noteq> objectValue
         then failWith ''Error: \"atom\" is not of type object'' st
         else
           let value = member_of atoms ''elements''
           in if empty_value value
              then failWith ''Error: no \"atoms.elements\" key found'' st
              else if type_of value \<noteq> objectValue
              then failWith ''Error: \"atoms.elements\" is not of type object'' st
              else
                let value = member_of value ''number''
                in if empty_value value
                   then failWith ''Error: no \"atoms.elements.number\" key found'' st
                   else if isArray value
                   then (case addAtoms value [0..<size_value value] (mol st) of
                           None \<Rightarrow> Aborted
                         | Some m \<Rightarrow> Continue (st\<lparr>mol := m\<rparr>))
                   else failWith ''Error: \"atoms.elements.number\" is not of type array'' st)"

text \<open>The locals \<^verbatim>\<open>atoms\<close> and \<^verbatim>\<open>atomCount\<close> of the source, as later blocks use them.\<close>

definition atoms_of :: "json \<Rightarrow> json" where
  "atoms_of doc = member_of doc ''atoms''"

definition atomCount_of :: "json \<Rightarrow> nat" where
  "atomCount_of doc =
     size_value (member_of (member_of (atoms_of doc) ''elements'') ''number'')"

text \<open>Lines 152-157 and 166-170: the position loops.\<close>

fun setPositions3d :: "json \<Rightarrow> nat list \<Rightarrow> molecule \<Rightarrow> molecule option" where
  "setPositions3d value [] m = Some m"
| "setPositions3d value (i # is) m =
     (case (asDouble (get_value value (3 * i + 0) (JInt 0)),
            asDouble (get_value value (3 * i + 1) (JInt 0)),
            asDouble (get_value value (3 * i + 2) (JInt 0))) of
        (Some x, Some y, Some z) \<Rightarrow> setPositions3d value is (setPosition3d i (x, y, z) m)
      | _ \<Rightarrow> None)"

fun setPositions2d :: "json \<Rightarrow> nat list \<Rightarrow> molecule \<Rightarrow> molecule option" where
  "setPositions2d value [] m = Some m"
| "setPositions2d value (i # is) m =
     (case (asDouble (get_value value (2 * i + 0) (JInt 0)),
            asDouble (get_value value (2 * i + 1) (JInt 0))) of
        (Some x, Some y) \<Rightarrow> setPositions2d value is (setPosition2d i (x, y) m)
      | _ \<Rightarrow> None)"

text \<open>Lines 146-158.\<close>

definition read_coords3d :: "json \<Rightarrow> nat \<Rightarrow> rstate \<Rightarrow> outcome" where
  "read_coords3d coords atomCnt st =
     (case subscript coords ''3d'' of
        None \<Rightarrow> Aborted
      | Some value \<Rightarrow>
          if isArray value
          then
            if size_value value \<noteq> 0 \<and> atomCnt \<noteq> size_value value div 3
            then failWith ''Error: number of elements != number of 3D coordinates.'' st
            else (case setPositions3d value [0..<atomCnt] (mol st) of
                    None \<Rightarrow> Aborted
                  | Some m \<Rightarrow> Continue (st\<lparr>mol := m\<rparr>))
          else Continue st)"

text \<open>Lines 160-171.\<close>

definition read_coords2d :: "json \<Rightarrow> nat \<Rightarrow> rstate \<Rightarrow> outcome" where
  "read_coords2d coords atomCnt st =
     (case subscript coords ''2d'' of
        None \<Rightarrow> Aborted
      | Some value \<Rightarrow>
          if isArray value
          then
            if size_value value \<noteq> 0 \<and> atomCnt \<noteq> size_value value div 2
            then failWith ''Error: number of elements != number of 2D coordinates.'' st
            else (case setPositions2d value [0..<atomCnt] (mol st) of
                    None \<Rightarrow> Aborted
                  | Some m \<Rightarrow> Continue (st\<lparr>mol := m\<rparr>))
          else Continue st)"

text \<open>Lines 185-192: the fractional coordinates are collected first.\<close>

fun fractionalList :: "json \<Rightarrow> nat list \<Rightarrow> Vector3 list option" where
  "fractionalList value [] = Some []"
| "fractionalList value (i # is) =
     (case (asDouble (get_value value (i * 3 + 0) (JInt 0)),
            asDouble (get_value value (i * 3 + 1) (JInt 0)),
            asDouble (get_value value (i * 3 + 2) (JInt 0))) of
        (Some x, Some y, Some z) \<Rightarrow>
          (case fractionalList value is of
             None \<Rightarrow> None
           | Some fs \<Rightarrow> Some ((x, y, z) # fs))
      | _ \<Rightarrow> None)"

text \<open>Modelled from the spec: \<^verbatim>\<open>CrystalTools::setFractionalCoordinates\<close> (not under
  src/). Section 4.1: the fractional coordinates are converted to Cartesian by the
  Coordinate Transformer and then stored on each atom.\<close>

fun storeCartesian :: "(Vector3 \<Rightarrow> Vector3) \<Rightarrow> nat \<Rightarrow> Vector3 list \<Rightarrow> molecule \<Rightarrow> molecule" where
  "storeCartesian f i [] m = m"
| "storeCartesian f i (p # ps) m = storeCartesian f (i + 1) ps (setPosition3d i (f p) m)"

definition setFractionalCoordinates :: "env \<Rightarrow> molecule \<Rightarrow> Vector3 list \<Rightarrow> molecule" where
  "setFractionalCoordinates e m fcoords =
     (case unitCell m of
        None \<Rightarrow> m
      | Some uc \<Rightarrow> storeCartesian (toCartesian e uc) 0 fcoords m)"

text \<open>Lines 173-194.\<close>

definition read_fractional :: "env \<Rightarrow> json \<Rightarrow> nat \<Rightarrow> rstate \<Rightarrow> outcome" where
  "read_fractional e coords atomCnt st =
     (case subscript coords ''3d fractional'' of
        None \<Rightarrow> Aborted
      | Some value \<Rightarrow>
          if type_of value = arrayValue
          then
            if unitCell (mol st) = None
            then failWith (''Cannot interpret fractional coordinates without '' @
                           ''unit cell.'') st
            else if size_value value \<noteq> 0 \<and> atomCnt \<noteq> size_value value div 3
            then failWith (''Error: number of elements != number of fractional '' @
                           ''coordinates.'') st
            else (case fractionalList value [0..<atomCnt] of
                    None \<Rightarrow> Aborted
                  | Some fcoords \<Rightarrow>
                      Continue (st\<lparr>mol := setFractionalCoordinates e (mol st) fcoords\<rparr>))
          else Continue st)"

text \<open>Lines 144-195.\<close>

definition read_coords :: "env \<Rightarrow> json \<Rightarrow> rstate \<Rightarrow> outcome" where
  "read_coords e doc st =
     (let coords = member_of (atoms_of doc) ''coords'';
          atomCnt = atomCount_of doc
      in if \<not> empty_value coords
         then andThen (andThen (read_coords3d coords atomCnt st)
                               (read_coords2d coords atomCnt))
                      (read_fractional e coords atomCnt)
         else Continue st)"

text \<open>Lines 210-214: the index \<open>i\<close> runs over 0, 2, ... below \<open>2 * bondCount\<close>.\<close>

fun addBonds :: "json \<Rightarrow> nat list \<Rightarrow> molecule \<Rightarrow> molecule option" where
  "addBonds value [] m = Some m"
| "addBonds value (i # is) m =
     (case (asInt (get_value value (i + 0) (JInt 0)),
            asInt (get_value value (i + 1) (JInt 0))) of
        (Some x, Some y) \<Rightarrow> addBonds value is (addBond (to_Index x) (to_Index y) m)
      | _ \<Rightarrow> None)"

text \<open>Lines 226-228.\<close>

fun setOrders :: "json \<Rightarrow> nat list \<Rightarrow> molecule \<Rightarrow> molecule option" where
  "setOrders value [] m = Some m"
| "setOrders value (i # is) m =
     (case asInt (get_value value i (JInt 1)) of
        None \<Rightarrow> None
      | Some k \<Rightarrow> setOrders value is (setOrder i (to_uchar k) m))"

text \<open>Lines 206-218: the result is the local \<^verbatim>\<open>bondCount\<close> and the state, or nothing
  when the library throws.\<close>

definition read_bond_index :: "json \<Rightarrow> rstate \<Rightarrow> (nat \<times> rstate) option" where
  "read_bond_index value st =
     (if isArray value
      then
        let bondCnt = size_value value div 2
        in (case addBonds value (map (\<lambda>k. 2 * k) [0..<bondCnt]) (mol st) of
              None \<Rightarrow> None
            | Some m \<Rightarrow> Some (bondCnt, st\<lparr>mol := m\<rparr>))
      else Some (0, appendError ''Warning, no bonding information found.'' st))"

text \<open>Lines 220-229.\<close>

definition read_bond_order :: "json \<Rightarrow> nat \<Rightarrow> rstate \<Rightarrow> outcome" where
  "read_bond_order value bondCnt st =
     (if isArray value
      then
        if bondCnt \<noteq> size_value value
        then failWith ''Error: number of bonds != number of bond orders.'' st
        else (case setOrders value [0..<bondCnt] (mol st) of
                None \<Rightarrow> Aborted
              | Some m \<Rightarrow> Continue (st\<lparr>mol := m\<rparr>))
      else Continue st)"

text \<open>Lines 198-230.\<close>

definition read_bonds :: "json \<Rightarrow> rstate \<Rightarrow> outcome" where
  "read_bonds doc st =
     (let bondsv = member_of doc ''bonds''
      in if \<not> empty_value bondsv
         then
           (case subscript bondsv ''connections'' of
              None \<Rightarrow> Aborted
            | Some value \<Rightarrow>
                if empty_value value
                then failWith ''Error: no \"bonds.connections\" key found'' st
                else
                  (case subscript value ''index'' of
                     None \<Rightarrow> Aborted
                   | Some idx \<Rightarrow>
                       (case read_bond_index idx st of
                          None \<Rightarrow> Aborted
                        | Some (bondCnt, st') \<Rightarrow>
                            read_bond_order (member_of bondsv ''order'') bondCnt st')))
         else Continue st)"

text \<open>The blocks of \<^verbatim>\<open>read\<close> that precede the coordinates, those that precede the
  bonds, and the whole function (lines 55-233).\<close>

definition read_to_atoms :: "env \<Rightarrow> json \<Rightarrow> rstate \<Rightarrow> outcome" where
  "read_to_atoms e doc st =
     andThen (andThen (andThen (read_identity doc st) (read_names doc))
                      (read_unit_cell e doc))
             (read_atoms doc)"

definition read_to_coords :: "env \<Rightarrow> json \<Rightarrow> rstate \<Rightarrow> outcome" where
  "read_to_coords e doc st = andThen (read_to_atoms e doc st) (read_coords e doc)"

definition read_root :: "env \<Rightarrow> json \<Rightarrow> rstate \<Rightarrow> outcome" where
  "read_root e doc st =
     andThen (andThen (read_to_coords e doc st) (read_bonds doc)) (Returned True)"

definition read :: "env \<Rightarrow> parsed \<Rightarrow> rstate \<Rightarrow> outcome" where
  "read e file st =
     (case file of
        ParseError msg \<Rightarrow> failWith (''Error parsing JSON: '' @ msg) st
      | Parsed doc \<Rightarrow> read_root e doc st)"

subsection \<open>CjsonFormat::write\<close>

text \<open>Modelled from the spec: the assigning \<^verbatim>\<open>Json::Value::operator[]\<close> (not under
  src/): on an object the member is replaced or added, and a null value becomes an
  object first. The encoder applies it to nothing else.\<close>

fun set_member :: "json \<Rightarrow> string \<Rightarrow> json \<Rightarrow> json" where
  "set_member (JObject kvs) k v = JObject (AList.update k v kvs)"
| "set_member JNull k v = JObject [(k, v)]"
| "set_member x k v = x"

text \<open>\<^verbatim>\<open>root[k1][k2][k3] = v\<close>\<close>

fun set_path :: "json \<Rightarrow> string list \<Rightarrow> json \<Rightarrow> json" where
  "set_path node [] v = v"
| "set_path node (k # ks) v = set_member node k (set_path (member_of node k) ks v)"

text \<open>\<^verbatim>\<open>std::string::c_str\<close> handed to \<^verbatim>\<open>Value(const char *)\<close>: the characters before
  the first NUL.\<close>

definition c_str :: "string \<Rightarrow> string" where
  "c_str s = takeWhile (\<lambda>c. c \<noteq> CHR 0x00) s"

text \<open>Lines 242-245.\<close>

definition write_string_data :: "string \<Rightarrow> molecule \<Rightarrow> json \<Rightarrow> json" where
  "write_string_data key m doc =
     (case data m key of
        VString s \<Rightarrow> set_member doc key (JString (c_str s))
      | _ \<Rightarrow> doc)"

text \<open>Lines 247-256.\<close>

definition write_unit_cell :: "env \<Rightarrow> molecule \<Rightarrow> json \<Rightarrow> json" where
  "write_unit_cell e m doc =
     (case unitCell m of
        None \<Rightarrow> doc
      | Some uc \<Rightarrow>
          set_member doc ''unit cell''
            (JObject [(''a'', JReal (cell_a uc)),
                      (''b'', JReal (cell_b uc)),
                      (''c'', JReal (cell_c uc)),
                      (''alpha'', JReal (cell_alpha uc * RAD_TO_DEG e)),
                      (''beta'', JReal (cell_beta uc * RAD_TO_DEG e)),
                      (''gamma'', JReal (cell_gamma uc * RAD_TO_DEG e))]))"

text \<open>Lines 259-282.\<close>

fun scf_name :: "scfType \<Rightarrow> string" where
  "scf_name Rhf = ''rhf''"
| "scf_name Rohf = ''rohf''"
| "scf_name Uhf = ''uhf''"
| "scf_name Unknown = ''unknown''"

definition write_basis :: "molecule \<Rightarrow> json \<Rightarrow> json" where
  "write_basis m doc =
     (case basisSet m of
        Some (GaussianSet scf) \<Rightarrow>
          set_member doc ''basisSet''
            (JObject [(''basisType'', JString ''GTO''), (''scfType'', JString (scf_name scf))])
      | _ \<Rightarrow> doc)"

definition flatten3 :: "Vector3 list \<Rightarrow> json list" where
  "flatten3 ps = concat (map (\<lambda>(x, y, z). [JReal x, JReal y, JReal z]) ps)"

definition flatten2 :: "Vector2 list \<Rightarrow> json list" where
  "flatten2 ps = concat (map (\<lambda>(x, y). [JReal x, JReal y]) ps)"

text \<open>Modelled from the spec: \<^verbatim>\<open>CrystalTools::fractionalCoordinates\<close> (not under
  src/): every position through the Coordinate Transformer.\<close>

definition fractionalCoordinates :: "env \<Rightarrow> unit_cell \<Rightarrow> Vector3 list \<Rightarrow> Vector3 list" where
  "fractionalCoordinates e uc ps = map (toFractional e uc) ps"

text \<open>Lines 292-318.\<close>

definition write_coords3d :: "env \<Rightarrow> molecule \<Rightarrow> json \<Rightarrow> json" where
  "write_coords3d e m doc =
     (if length (positions3d m) = atomCount m
      then
        (case unitCell m of
           Some uc \<Rightarrow>
             set_path doc [''atoms'', ''coords'', ''3d fractional'']
               (JArray (flatten3 (fractionalCoordinates e uc (positions3d m))))
         | None \<Rightarrow>
             set_path doc [''atoms'', ''coords'', ''3d''] (JArray (flatten3 (positions3d m))))
      else doc)"

text \<open>Lines 321-330.\<close>

definition write_coords2d :: "molecule \<Rightarrow> json \<Rightarrow> json" where
  "write_coords2d m doc =
     (if length (positions2d m) = atomCount m
      then set_path doc [''atoms'', ''coords'', ''2d''] (JArray (flatten2 (positions2d m)))
      else doc)"

text \<open>Lines 285-331.\<close>

definition write_atoms :: "env \<Rightarrow> molecule \<Rightarrow> json \<Rightarrow> json" where
  "write_atoms e m doc =
     (if atomCount m \<noteq> 0
      then
        write_coords2d m
          (write_coords3d e m
            (set_path doc [''atoms'', ''elements'', ''number'']
               (JArray (map (\<lambda>z. JInt (int z)) (atomicNumbers m)))))
      else doc)"

text \<open>Lines 334-345.\<close>

definition write_bonds :: "molecule \<Rightarrow> json \<Rightarrow> json" where
  "write_bonds m doc =
     (if bondCount m \<noteq> 0
      then
        set_path
          (set_path doc [''bonds'', ''connections'', ''index'']
             (JArray (concat (map (\<lambda>b. [JUInt (to_UInt (atom1 b)), JUInt (to_UInt (atom2 b))])
                                  (bonds m)))))
          [''bonds'', ''order'']
          (JArray (map (\<lambda>b. JInt (int (bond_order b))) (bonds m)))
      else doc)"

text \<open>Lines 235-350: the blocks before the atoms (lines 240-282), the document handed
  to the stream writer, and the status.\<close>

definition write_head :: "env \<Rightarrow> molecule \<Rightarrow> json" where
  "write_head e m =
     write_basis m
       (write_unit_cell e m
         (write_string_data ''inchi'' m
           (write_string_data ''name'' m
             (set_member JNull ''chemical json'' (JInt 0)))))"

definition write_root :: "env \<Rightarrow> molecule \<Rightarrow> json" where
  "write_root e m = write_bonds m (write_atoms e m (write_head e m))"

definition write_cjson :: "env \<Rightarrow> molecule \<Rightarrow> bool \<times> json" where
  "write_cjson e m = (True, write_root e m)"

text \<open>Lines 352-364.\<close>

definition fileExtensions :: "string list" where
  "fileExtensions = [''cjson'']"

definition mimeTypes :: "string list" where
  "mimeTypes = [''chemical/x-cjson'']"

subsection \<open>Vocabulary of the properties\<close>

text \<open>The member of an object as the document has it: \<open>None\<close> when the key is not
  there.\<close>

fun lookup_key :: "json \<Rightarrow> string \<Rightarrow> json option" where
  "lookup_key (JObject kvs) k = map_of kvs k"
| "lookup_key v k = None"

fun lookup_path :: "json \<Rightarrow> string list \<Rightarrow> json option" where
  "lookup_path v [] = Some v"
| "lookup_path v (k # ks) =
     (case lookup_key v k of None \<Rightarrow> None | Some x \<Rightarrow> lookup_path x ks)"

definition has_path :: "json \<Rightarrow> string list \<Rightarrow> bool" where
  "has_path v ks = (lookup_path v ks \<noteq> None)"

text \<open>An environment for the closed examples: the exact conversion factors, and the
  Coordinate Transformer of a cell with right angles.\<close>

definition example_env :: env where
  "example_env =
     \<lparr>DEG_TO_RAD = pi / 180, RAD_TO_DEG = 180 / pi,
      toCartesian = (\<lambda>uc (x, y, z). (cell_a uc * x, cell_b uc * y, cell_c uc * z)),
      toFractional = (\<lambda>uc (x, y, z). (x / cell_a uc, y / cell_b uc, z / cell_c uc))\<rparr>"

definition start :: rstate where
  "start = \<lparr>errors = [], mol = emptyMolecule\<rparr>"

text \<open>The integer and the double that a numeric value converts to.\<close>

definition int_of :: "json \<Rightarrow> int" where
  "int_of v = (case asInt v of Some n \<Rightarrow> n | None \<Rightarrow> 0)"

definition double_of :: "json \<Rightarrow> real" where
  "double_of v = (case asDouble v of Some r \<Rightarrow> r | None \<Rightarrow> 0)"

text \<open>The bond that the decoder makes of the \<open>k\<close>-th pair of an index array.\<close>

definition bond_of_pair :: "json list \<Rightarrow> nat \<Rightarrow> bond" where
  "bond_of_pair xs k =
     \<lparr>atom1 = to_Index (int_of (xs ! (2 * k))), atom2 = to_Index (int_of (xs ! (2 * k + 1))),
      bond_order = 1\<rparr>"

definition objnull :: "json \<Rightarrow> bool" where
  "objnull v = (v = JNull \<or> isObject v)"

subsection \<open>Example documents and molecules\<close>

definition one_carbon :: json where
  "one_carbon = JObject [(''number'', JArray [JInt 6])]"

text \<open>Otherwise valid atom data, without the identity marker, and with an empty one.\<close>

definition doc_no_marker :: json where
  "doc_no_marker = JObject [(''atoms'', JObject [(''elements'', one_carbon)])]"

definition doc_empty_marker :: json where
  "doc_empty_marker =
     JObject [(''chemical json'', JObject []), (''atoms'', JObject [(''elements'', one_carbon)])]"

text \<open>One atom and four 3D coordinate values.\<close>

definition doc_four_coords :: json where
  "doc_four_coords =
     JObject [(''chemical json'', JInt 0),
       (''atoms'', JObject
          [(''elements'', one_carbon),
           (''coords'', JObject [(''3d'', JArray [JReal 1, JReal 2, JReal 3, JReal 4])])])]"

text \<open>Fractional coordinates (the first of them not even a number) and no unit cell.\<close>

definition doc_fractional_no_cell :: json where
  "doc_fractional_no_cell =
     JObject [(''chemical json'', JInt 0),
       (''atoms'', JObject
          [(''elements'', one_carbon),
           (''coords'', JObject
              [(''3d'', JArray [JReal 1, JReal 2, JReal 3]),
               (''3d fractional'', JArray [JString ''x'', JReal 0, JReal 0])])])]"

definition water :: json where
  "water = JObject [(''elements'', JObject [(''number'', JArray [JInt 8, JInt 1, JInt 1])])]"

text \<open>Two bonded pairs: without orders, with one order too few, with indices that are
  no atoms of the molecule.\<close>

definition doc_two_bonds :: json where
  "doc_two_bonds =
     JObject [(''chemical json'', JInt 0), (''atoms'', water),
       (''bonds'', JObject
          [(''connections'', JObject [(''index'', JArray [JInt 0, JInt 1, JInt 0, JInt 2])])])]"

definition doc_two_bonds_one_order :: json where
  "doc_two_bonds_one_order =
     JObject [(''chemical json'', JInt 0), (''atoms'', water),
       (''bonds'', JObject
          [(''connections'', JObject [(''index'', JArray [JInt 0, JInt 1, JInt 0, JInt 2])]),
           (''order'', JArray [JInt 1])])]"

definition doc_wild_bonds :: json where
  "doc_wild_bonds =
     JObject [(''chemical json'', JInt 0), (''atoms'', water),
       (''bonds'', JObject
          [(''connections'', JObject [(''index'', JArray (map JInt [0, 7, - 1, 1]))])])]"

text \<open>An index that is a string: without orders, and with one order.\<close>

definition doc_index_string :: json where
  "doc_index_string =
     JObject [(''chemical json'', JInt 0), (''atoms'', water),
       (''bonds'', JObject [(''connections'', JObject [(''index'', JString ''none'')])])]"

definition doc_index_string_order :: json where
  "doc_index_string_order =
     JObject [(''chemical json'', JInt 0), (''atoms'', water),
       (''bonds'', JObject
          [(''connections'', JObject [(''index'', JString ''none'')]),
           (''order'', JArray [JInt 1])])]"

text \<open>A unit cell that is a number, and one with right angles.\<close>

definition doc_cell_number :: json where
  "doc_cell_number =
     JObject [(''chemical json'', JInt 0), (''unit cell'', JInt 5), (''atoms'', water)]"

definition cell_90 :: json where
  "cell_90 =
     JObject [(''a'', JReal 3), (''b'', JReal 4), (''c'', JReal 5),
              (''alpha'', JReal 90), (''beta'', JReal 90), (''gamma'', JReal 90)]"

definition doc_cell_90 :: json where
  "doc_cell_90 =
     JObject [(''chemical json'', JInt 0), (''unit cell'', cell_90), (''atoms'', water)]"

definition right_cell :: unit_cell where
  "right_cell =
     \<lparr>cell_a = 3, cell_b = 4, cell_c = 5,
      cell_alpha = pi / 2, cell_beta = pi / 2, cell_gamma = pi / 2\<rparr>"

text \<open>One atom with a 3D position, free and in a cell.\<close>

definition carbon_atom :: molecule where
  "carbon_atom = emptyMolecule\<lparr>atomicNumbers := [6], positions3d := [(1, 2, 3)]\<rparr>"

definition carbon_in_cell :: molecule where
  "carbon_in_cell = carbon_atom\<lparr>unitCell := Some right_cell\<rparr>"

definition water_atoms :: molecule where
  "water_atoms = emptyMolecule\<lparr>atomicNumbers := [8, 1, 1]\<rparr>"

subsection \<open>Vocabulary of the round trip\<close>


















section \<open>Properties of the decoder\<close>

subsection \<open>Values and members\<close>

lemma member_of_object:
  "member_of (JObject kvs) k = (case map_of kvs k of Some x \<Rightarrow> x | None \<Rightarrow> JNull)"
  by (simp add: member_of_def)

lemma empty_value_iff: "empty_value v \<longleftrightarrow> v = JNull \<or> v = JArray [] \<or> v = JObject []"
  by (cases v) (simp_all add: empty_value_def)

lemma member_of_lookup: "lookup_key v k = Some x \<Longrightarrow> member_of v k = x"
  by (cases v) (simp_all add: member_of_def)

lemma member_of_absent: "lookup_key v k = None \<Longrightarrow> member_of v k = JNull"
  by (cases v) (simp_all add: member_of_def)

lemma subscript_lookup: "lookup_key v k = Some x \<Longrightarrow> subscript v k = Some x"
  by (cases v) simp_all

lemma lookup_not_empty: "lookup_key v k = Some x \<Longrightarrow> \<not> empty_value v"
  by (cases v) (auto simp: empty_value_iff)

lemma andThen_Continue:
  "andThen r f = Continue st \<longleftrightarrow> (\<exists>st'. r = Continue st' \<and> f st' = Continue st)"
  by (cases r) simp_all

lemma andThen_skip: "(\<And>s. f s = Continue s) \<Longrightarrow> andThen r f = r"
  by (cases r) simp_all

text \<open>The definitions that a closed example unfolds.\<close>

lemmas read_blocks = read_def read_root_def read_to_coords_def read_to_atoms_def
  read_identity_def read_names_def read_string_data_def read_unit_cell_def read_atoms_def
  read_coords_def read_coords3d_def read_coords2d_def read_fractional_def read_bonds_def
  read_bond_index_def read_bond_order_def atoms_of_def atomCount_of_def

lemmas value_ops = isObject_def isArray_def isString_def isNumeric_def member_of_object
  empty_value_iff failWith_def appendError_def

lemmas molecule_ops = addAtom_def setPosition3d_def setPosition2d_def addBond_def setOrder_def
  setData_def setUnitCell_def emptyMolecule_def start_def to_uchar_def to_Index_def
  minInt_def maxInt_def

lemmas examples = one_carbon_def doc_no_marker_def doc_empty_marker_def doc_four_coords_def
  doc_fractional_no_cell_def water_def doc_two_bonds_def doc_two_bonds_one_order_def
  doc_wild_bonds_def doc_index_string_def doc_index_string_order_def doc_cell_number_def
  cell_90_def doc_cell_90_def right_cell_def carbon_atom_def carbon_in_cell_def
  water_atoms_def example_env_def

subsection \<open>The identity check\<close>

text \<open>
  C2, as the specification states it: an object document passes the identity check if and
  only if it contains a \<^verbatim>\<open>chemical json\<close> key, whatever its value, an empty one included.
  The decoder tests the member with \<^verbatim>\<open>empty()\<close>: a document whose marker is an empty object
  contains the key and is rejected all the same, with the message of the absent key.
\<close>

theorem empty_marker_rejected:
  "lookup_key doc_empty_marker ''chemical json'' = Some (JObject []) \<and>
   read example_env (Parsed doc_empty_marker) start =
     Returned False
       \<lparr>errors = [''Error: no \"chemical json\" key found.''], mol = emptyMolecule\<rparr>"
  by (simp add: read_blocks value_ops molecule_ops examples)

text \<open>
  C2, amended: an object document passes the identity check if and only if its
  \<^verbatim>\<open>chemical json\<close> member is present with a value that is not null, not an empty array
  and not an empty object (every scalar passes, 0 and the empty string too). In every
  other case decoding returns failure with the structural message appended, whatever the
  atom data.
\<close>

theorem identity_check:
  assumes "isObject doc"
  shows "(read_identity doc st = Continue st \<longleftrightarrow>
            (case lookup_key doc ''chemical json'' of
               None \<Rightarrow> False
             | Some v \<Rightarrow> v \<noteq> JNull \<and> v \<noteq> JArray [] \<and> v \<noteq> JObject []))
       \<and> (read_identity doc st \<noteq> Continue st \<longrightarrow>
            read e (Parsed doc) st =
              Returned False
                (st\<lparr>errors := errors st @ [''Error: no \"chemical json\" key found.'']\<rparr>))"
  using assms
  by (cases doc)
     (auto simp: read_def read_root_def read_to_coords_def read_to_atoms_def read_identity_def
        isObject_def member_of_object empty_value_iff failWith_def appendError_def
        split: option.splits)

theorem identity_check_witness:
  "isObject doc_no_marker \<and> lookup_key doc_no_marker ''chemical json'' = None \<and>
   read_identity doc_no_marker start \<noteq> Continue start \<and>
   read example_env (Parsed doc_no_marker) start =
     Returned False
       \<lparr>errors = [''Error: no \"chemical json\" key found.''], mol = emptyMolecule\<rparr> \<and>
   isObject doc_four_coords \<and> lookup_key doc_four_coords ''chemical json'' = Some (JInt 0) \<and>
   read_identity doc_four_coords start = Continue start"
  using identity_check [of doc_no_marker start example_env]
        identity_check [of doc_four_coords start example_env]
  by (simp add: examples isObject_def start_def)

subsection \<open>The unit cell\<close>

lemma read_unit_cell_skip:
  "type_of (member_of doc ''unit cell'') \<noteq> objectValue \<Longrightarrow>
   read_unit_cell e doc st = Continue st"
  by (simp add: read_unit_cell_def Let_def)

text \<open>
  C10: when the \<^verbatim>\<open>unit cell\<close> key is present and its value is not an object, the decoder
  skips the block: no error is recorded, no unit cell is attached (the state is the
  same), and decoding goes on as if the block were not there. The six fields are
  validated, and can fail, only when the value is an object.
\<close>

theorem unit_cell_not_object_skipped:
  "(lookup_key doc ''unit cell'' = Some v \<and> type_of v \<noteq> objectValue \<longrightarrow>
      read_unit_cell e doc st = Continue st \<and>
      read_to_atoms e doc st =
        andThen (andThen (read_identity doc st) (read_names doc)) (read_atoms doc))
   \<and> ((\<exists>st'. read_unit_cell e doc st = Returned False st') \<longrightarrow>
      type_of (member_of doc ''unit cell'') = objectValue)"
proof (intro conjI impI)
  assume a: "lookup_key doc ''unit cell'' = Some v \<and> type_of v \<noteq> objectValue"
  then have skip: "\<And>s. read_unit_cell e doc s = Continue s"
    by (simp add: member_of_lookup read_unit_cell_skip)
  then show "read_unit_cell e doc st = Continue st" .
  show "read_to_atoms e doc st =
        andThen (andThen (read_identity doc st) (read_names doc)) (read_atoms doc)"
    by (simp add: read_to_atoms_def andThen_skip[OF skip])
next
  assume "\<exists>st'. read_unit_cell e doc st = Returned False st'"
  then show "type_of (member_of doc ''unit cell'') = objectValue"
    by (metis outcome.distinct(1) read_unit_cell_skip)
qed

theorem unit_cell_not_object_skipped_witness:
  "lookup_key doc_cell_number ''unit cell'' = Some (JInt 5) \<and>
   type_of (JInt 5) \<noteq> objectValue \<and>
   read_unit_cell example_env doc_cell_number start = Continue start \<and>
   read example_env (Parsed doc_cell_number) start =
     Returned True \<lparr>errors = [], mol = water_atoms\<rparr> \<and>
   read_unit_cell example_env (JObject [(''unit cell'', JObject [(''a'', JReal 1)])]) start =
     Returned False
       \<lparr>errors = [''Invalid unit cell specification: a, b, c, alpha, beta, gamma must be present and numeric.''],
        mol = emptyMolecule\<rparr> \<and>
   type_of (member_of (JObject [(''unit cell'', JObject [(''a'', JReal 1)])]) ''unit cell'')
     = objectValue"
  using unit_cell_not_object_skipped [of doc_cell_number "JInt 5" example_env start]
        unit_cell_not_object_skipped
          [of "JObject [(''unit cell'', JObject [(''a'', JReal 1)])]" JNull example_env start]
  by (simp add: read_blocks value_ops molecule_ops examples)


subsection \<open>The unit cell along the decoder\<close>

lemma read_string_data_unitCell:
  "unitCell (mol (read_string_data k doc st)) = unitCell (mol st)"
  by (simp add: read_string_data_def setData_def Let_def)

lemma addAtoms_unitCell: "addAtoms v is m = Some m' \<Longrightarrow> unitCell m' = unitCell m"
  by (induction "is" arbitrary: m) (auto simp: addAtom_def split: option.splits)

lemma setPositions3d_unitCell: "setPositions3d v is m = Some m' \<Longrightarrow> unitCell m' = unitCell m"
  by (induction "is" arbitrary: m) (auto simp: setPosition3d_def Let_def split: option.splits)

lemma setPositions2d_unitCell: "setPositions2d v is m = Some m' \<Longrightarrow> unitCell m' = unitCell m"
  by (induction "is" arbitrary: m) (auto simp: setPosition2d_def Let_def split: option.splits)

lemma read_atoms_unitCell:
  "read_atoms doc st = Continue st' \<Longrightarrow> unitCell (mol st') = unitCell (mol st)"
  by (auto simp: read_atoms_def Let_def failWith_def dest: addAtoms_unitCell
           split: if_splits option.splits)

lemma read_coords3d_unitCell:
  "read_coords3d c n st = Continue st' \<Longrightarrow> unitCell (mol st') = unitCell (mol st)"
  by (auto simp: read_coords3d_def failWith_def dest: setPositions3d_unitCell
           split: if_splits option.splits)

lemma read_coords2d_unitCell:
  "read_coords2d c n st = Continue st' \<Longrightarrow> unitCell (mol st') = unitCell (mol st)"
  by (auto simp: read_coords2d_def failWith_def dest: setPositions2d_unitCell
           split: if_splits option.splits)

lemma read_to_atoms_no_cell:
  assumes "type_of (member_of doc ''unit cell'') \<noteq> objectValue"
      and "read_to_atoms e doc st = Continue st'"
  shows "unitCell (mol st') = unitCell (mol st)"
proof -
  from assms(2) obtain s1 s2 s3 where
    "read_identity doc st = Continue s1" "read_names doc s1 = Continue s2"
    "read_unit_cell e doc s2 = Continue s3" "read_atoms doc s3 = Continue st'"
    unfolding read_to_atoms_def andThen_Continue by blast
  moreover from this have "s1 = st" "s3 = s2"
    using assms(1)
    by (auto simp: read_identity_def failWith_def read_unit_cell_skip split: if_splits)
  ultimately show ?thesis
    by (auto simp: read_names_def read_string_data_unitCell dest!: read_atoms_unitCell)
qed

subsection \<open>Coordinates\<close>

text \<open>When the 3D block fails: the array is not empty and the atom count differs from
  the quotient of its length by 3. Nothing is written then.\<close>

lemma read_coords3d_fails:
  assumes "lookup_key coords ''3d'' = Some (JArray xs)"
  shows "(\<exists>st'. read_coords3d coords n st = Returned False st') \<longleftrightarrow>
           xs \<noteq> [] \<and> n \<noteq> length xs div 3"
    and "xs \<noteq> [] \<and> n \<noteq> length xs div 3 \<Longrightarrow>
           read_coords3d coords n st =
             Returned False
               \<lparr>errors = errors st @ [''Error: number of elements != number of 3D coordinates.''],
                mol = mol st\<rparr>"
  by (auto simp: read_coords3d_def subscript_lookup[OF assms] isArray_def failWith_def
        appendError_def split: option.splits)

text \<open>
  C3 says that a non-empty \<^verbatim>\<open>3d\<close> array whose length is not exactly three times the atom
  count makes decoding fail. The decoder compares the atom count with the length divided
  by 3 in unsigned arithmetic, so that one or two values too many pass: with one atom and
  four values decoding succeeds, no error is recorded and the position is written.
\<close>

theorem four_coords_for_one_atom_accepted:
  "atomCount_of doc_four_coords = 1 \<and>
   size_value (member_of (member_of (atoms_of doc_four_coords) ''coords'') ''3d'') = 4 \<and>
   read example_env (Parsed doc_four_coords) start =
     Returned True \<lparr>errors = [], mol = carbon_atom\<rparr>"
  by (simp add: read_blocks value_ops molecule_ops examples)

text \<open>
  C4: a document has a \<^verbatim>\<open>3d fractional\<close> array under \<^verbatim>\<open>atoms.coords\<close>, the molecule came
  without a unit cell and the document's \<^verbatim>\<open>unit cell\<close> is not an object, so that decoding
  has attached none. When decoding gets as far as the fractional block (the blocks before
  it have not failed), it returns failure with the referential message, and the molecule
  is the one the 2D block left: no fractional value has been read, whatever the array
  holds.
\<close>

theorem fractional_without_unit_cell:
  assumes no_cell: "unitCell (mol st0) = None"
      and not_obj: "type_of (member_of doc ''unit cell'') \<noteq> objectValue"
      and atoms: "read_to_atoms e doc st0 = Continue st1"
      and frac: "lookup_key (member_of (atoms_of doc) ''coords'') ''3d fractional''
                   = Some (JArray fs)"
      and c32: "andThen (read_coords3d (member_of (atoms_of doc) ''coords'') (atomCount_of doc) st1)
                        (read_coords2d (member_of (atoms_of doc) ''coords'') (atomCount_of doc))
                = Continue st2"
  shows "read e (Parsed doc) st0 =
           Returned False
             \<lparr>errors = errors st2 @
                        [''Cannot interpret fractional coordinates without unit cell.''],
              mol = mol st2\<rparr>"
proof -
  let ?coords = "member_of (atoms_of doc) ''coords''"
  from c32 obtain s where s: "read_coords3d ?coords (atomCount_of doc) st1 = Continue s"
      "read_coords2d ?coords (atomCount_of doc) s = Continue st2"
    unfolding andThen_Continue by blast
  have "unitCell (mol st1) = None"
    using read_to_atoms_no_cell[OF not_obj atoms] no_cell by simp
  then have cell2: "unitCell (mol st2) = None"
    using read_coords3d_unitCell[OF s(1)] read_coords2d_unitCell[OF s(2)] by simp
  have "read_fractional e ?coords (atomCount_of doc) st2 =
          failWith ''Cannot interpret fractional coordinates without unit cell.'' st2"
    using cell2 by (simp add: read_fractional_def subscript_lookup[OF frac])
  then have "read_coords e doc st1 =
          failWith ''Cannot interpret fractional coordinates without unit cell.'' st2"
    using c32 lookup_not_empty[OF frac] by (simp add: read_coords_def Let_def)
  then show ?thesis
    using atoms
    by (simp add: read_def read_root_def read_to_coords_def failWith_def appendError_def)
qed

theorem fractional_without_unit_cell_witness:
  "unitCell (mol start) = None \<and>
   lookup_key (member_of (atoms_of doc_fractional_no_cell) ''coords'') ''3d fractional''
     = Some (JArray [JString ''x'', JReal 0, JReal 0]) \<and>
   read example_env (Parsed doc_fractional_no_cell) start =
     Returned False
       \<lparr>errors = [''Cannot interpret fractional coordinates without unit cell.''],
        mol = carbon_atom\<rparr>"
  using fractional_without_unit_cell
    [of start doc_fractional_no_cell example_env
        "\<lparr>errors = [], mol = emptyMolecule\<lparr>atomicNumbers := [6]\<rparr>\<rparr>"
        "[JString ''x'', JReal 0, JReal 0]"
        "\<lparr>errors = [], mol = carbon_atom\<rparr>"]
  by (simp add: read_blocks value_ops molecule_ops examples)

subsection \<open>Bonds\<close>

lemma addBonds_append:
  assumes "\<forall>k\<in>set ks. 2 * k + 1 < length xs" and "\<forall>x\<in>set xs. asInt x \<noteq> None"
  shows "addBonds (JArray xs) (map (\<lambda>k. 2 * k) ks) m =
           Some (m\<lparr>bonds := bonds m @ map (bond_of_pair xs) ks\<rparr>)"
  using assms
proof (induction ks arbitrary: m)
  case Nil
  then show ?case by simp
next
  case (Cons k ks)
  from Cons.prems have lt: "2 * k < length xs" "Suc (2 * k) < length xs" by simp_all
  with Cons.prems(2) obtain x y where
    xy: "asInt (xs ! (2 * k)) = Some x" "asInt (xs ! Suc (2 * k)) = Some y"
    by (metis nth_mem option.exhaust)
  have "addBonds (JArray xs) (map (\<lambda>k. 2 * k) (k # ks)) m =
          addBonds (JArray xs) (map (\<lambda>k. 2 * k) ks) (addBond (to_Index x) (to_Index y) m)"
    using lt xy by simp
  also have "\<dots> = Some ((addBond (to_Index x) (to_Index y) m)
       \<lparr>bonds := bonds (addBond (to_Index x) (to_Index y) m) @ map (bond_of_pair xs) ks\<rparr>)"
    using Cons.prems by (intro Cons.IH) simp_all
  also have "\<dots> = Some (m\<lparr>bonds := bonds m @ map (bond_of_pair xs) (k # ks)\<rparr>)"
    using xy by (simp add: addBond_def bond_of_pair_def int_of_def)
  finally show ?case .
qed

lemma read_bond_index_array:
  assumes "\<forall>x\<in>set xs. asInt x \<noteq> None"
  shows "read_bond_index (JArray xs) st =
           Some (length xs div 2,
                 st\<lparr>mol := (mol st)\<lparr>bonds := bonds (mol st) @
                        map (bond_of_pair xs) [0..<length xs div 2]\<rparr>\<rparr>)"
proof -
  have "\<forall>k\<in>set [0..<length xs div 2]. 2 * k + 1 < length xs"
    by auto
  from addBonds_append[OF this assms] show ?thesis
    by (simp add: read_bond_index_def isArray_def Let_def)
qed

lemma read_bond_index_other:
  "\<not> isArray v \<Longrightarrow>
   read_bond_index v st = Some (0, appendError ''Warning, no bonding information found.'' st)"
  by (simp add: read_bond_index_def)

lemma read_bonds_reached:
  assumes "lookup_key doc ''bonds'' = Some b" "lookup_key b ''connections'' = Some c"
          "lookup_key c ''index'' = Some idx"
  shows "read_bonds doc st =
           (case read_bond_index idx st of
              None \<Rightarrow> Aborted
            | Some (bondCnt, st') \<Rightarrow> read_bond_order (member_of b ''order'') bondCnt st')"
  using assms
  by (simp add: read_bonds_def Let_def member_of_lookup subscript_lookup lookup_not_empty)

lemma read_after_coords:
  "read_to_coords e doc st0 = Continue st \<Longrightarrow>
   read e (Parsed doc) st0 = andThen (read_bonds doc st) (Returned True)"
  by (simp add: read_def read_root_def)

text \<open>
  C5: decoding has reached the bonds, \<^verbatim>\<open>bonds.connections.index\<close> is an array of integer
  values and so defines M = length div 2 pairs. Without a \<^verbatim>\<open>bonds.order\<close> key decoding
  succeeds, exactly M bonds are added after those the molecule had, and each of them has
  order 1. With a \<^verbatim>\<open>bonds.order\<close> array whose length is not M, decoding returns failure with
  the message of the bond orders.
\<close>

theorem bond_default_order:
  assumes "read_to_coords e doc st0 = Continue st"
      and "lookup_key doc ''bonds'' = Some b"
      and "lookup_key b ''connections'' = Some c"
      and "lookup_key c ''index'' = Some (JArray xs)"
      and "\<forall>x\<in>set xs. asInt x \<noteq> None"
  shows "(lookup_key b ''order'' = None \<longrightarrow>
           (\<exists>new. read e (Parsed doc) st0 =
                     Returned True (st\<lparr>mol := (mol st)\<lparr>bonds := bonds (mol st) @ new\<rparr>\<rparr>) \<and>
                  length new = length xs div 2 \<and> (\<forall>b\<in>set new. bond_order b = 1)))
       \<and> (\<forall>os. lookup_key b ''order'' = Some (JArray os) \<and> length os \<noteq> length xs div 2 \<longrightarrow>
           (\<exists>st'. read e (Parsed doc) st0 = Returned False st' \<and>
                  errors st' =
                    errors st @ [''Error: number of bonds != number of bond orders.'']))"
proof (intro conjI impI allI)
  assume "lookup_key b ''order'' = None"
  then have "\<not> isArray (member_of b ''order'')"
    by (simp add: member_of_absent isArray_def)
  then have "read e (Parsed doc) st0 =
      Returned True (st\<lparr>mol := (mol st)\<lparr>bonds := bonds (mol st) @
          map (bond_of_pair xs) [0..<length xs div 2]\<rparr>\<rparr>)"
    using read_bond_index_array[OF assms(5), of st]
    by (simp add: read_after_coords[OF assms(1)] read_bonds_reached[OF assms(2,3,4)]
          read_bond_order_def)
  moreover have "\<forall>b\<in>set (map (bond_of_pair xs) [0..<length xs div 2]). bond_order b = 1"
    by (simp add: bond_of_pair_def)
  ultimately show "\<exists>new. read e (Parsed doc) st0 =
                     Returned True (st\<lparr>mol := (mol st)\<lparr>bonds := bonds (mol st) @ new\<rparr>\<rparr>) \<and>
                  length new = length xs div 2 \<and> (\<forall>b\<in>set new. bond_order b = 1)"
    by (intro exI[of _ "map (bond_of_pair xs) [0..<length xs div 2]"]) simp
next
  fix os
  assume "lookup_key b ''order'' = Some (JArray os) \<and> length os \<noteq> length xs div 2"
  then have "member_of b ''order'' = JArray os" "length xs div 2 \<noteq> length os"
    by (auto simp: member_of_lookup)
  then show "\<exists>st'. read e (Parsed doc) st0 = Returned False st' \<and>
                  errors st' =
                    errors st @ [''Error: number of bonds != number of bond orders.'']"
    using read_bond_index_array[OF assms(5), of st]
    by (simp add: read_after_coords[OF assms(1)] read_bonds_reached[OF assms(2,3,4)]
          read_bond_order_def isArray_def failWith_def appendError_def)
qed

theorem bond_default_order_witness:
  "read_to_coords example_env doc_two_bonds start = Continue \<lparr>errors = [], mol = water_atoms\<rparr> \<and>
   read example_env (Parsed doc_two_bonds) start =
     Returned True
       \<lparr>errors = [],
        mol = water_atoms\<lparr>bonds := [\<lparr>atom1 = 0, atom2 = 1, bond_order = 1\<rparr>,
                                     \<lparr>atom1 = 0, atom2 = 2, bond_order = 1\<rparr>]\<rparr>\<rparr> \<and>
   read example_env (Parsed doc_two_bonds_one_order) start =
     Returned False
       \<lparr>errors = [''Error: number of bonds != number of bond orders.''],
        mol = water_atoms\<lparr>bonds := [\<lparr>atom1 = 0, atom2 = 1, bond_order = 1\<rparr>,
                                     \<lparr>atom1 = 0, atom2 = 2, bond_order = 1\<rparr>]\<rparr>\<rparr>"
  using bond_default_order
          [of example_env doc_two_bonds start "\<lparr>errors = [], mol = water_atoms\<rparr>"
              "JObject [(''connections'', JObject [(''index'', JArray [JInt 0, JInt 1, JInt 0, JInt 2])])]"
              "JObject [(''index'', JArray [JInt 0, JInt 1, JInt 0, JInt 2])]"
              "[JInt 0, JInt 1, JInt 0, JInt 2]"]
        bond_default_order
          [of example_env doc_two_bonds_one_order start "\<lparr>errors = [], mol = water_atoms\<rparr>"
              "JObject [(''connections'', JObject [(''index'', JArray [JInt 0, JInt 1, JInt 0, JInt 2])]),
                        (''order'', JArray [JInt 1])]"
              "JObject [(''index'', JArray [JInt 0, JInt 1, JInt 0, JInt 2])]"
              "[JInt 0, JInt 1, JInt 0, JInt 2]"]
  by (simp add: read_blocks value_ops molecule_ops examples)

text \<open>
  C6, as the specification states it: whenever \<^verbatim>\<open>bonds.connections.index\<close> is present and
  not an array, decoding records the warning, adds no bond and returns success. With a
  \<^verbatim>\<open>bonds.order\<close> array of one entry beside such an index the count check that follows
  compares zero bonds with one order, and decoding returns failure.
\<close>

theorem index_string_with_order_fails:
  "lookup_path doc_index_string_order [''bonds'', ''connections'', ''index'']
     = Some (JString ''none'') \<and>
   read example_env (Parsed doc_index_string_order) start =
     Returned False
       \<lparr>errors = [''Warning, no bonding information found.'',
                  ''Error: number of bonds != number of bond orders.''],
        mol = water_atoms\<rparr>"
  by (simp add: read_blocks value_ops molecule_ops examples)

text \<open>
  C6, amended: decoding has reached the bonds and \<^verbatim>\<open>bonds.connections.index\<close> is present
  and not an array. When \<^verbatim>\<open>bonds.order\<close> is absent, not an array or an empty array, decoding
  records the warning, adds no bond (the molecule is unchanged) and returns success. When
  \<^verbatim>\<open>bonds.order\<close> is a non-empty array, decoding records the warning and then returns
  failure with the message of the bond orders.
\<close>

theorem index_not_array_is_warning:
  assumes "read_to_coords e doc st0 = Continue st"
      and "lookup_key doc ''bonds'' = Some b"
      and "lookup_key b ''connections'' = Some c"
      and "lookup_key c ''index'' = Some v"
      and "\<not> isArray v"
  shows "((isArray (member_of b ''order'') \<longrightarrow> member_of b ''order'' = JArray []) \<longrightarrow>
            read e (Parsed doc) st0 =
              Returned True \<lparr>errors = errors st @ [''Warning, no bonding information found.''],
                             mol = mol st\<rparr>)
       \<and> (\<forall>x os. member_of b ''order'' = JArray (x # os) \<longrightarrow>
            read e (Parsed doc) st0 =
              Returned False
                \<lparr>errors = errors st @ [''Warning, no bonding information found.'',
                                       ''Error: number of bonds != number of bond orders.''],
                 mol = mol st\<rparr>)"
  using read_bond_index_other[OF assms(5), of st]
  by (auto simp: read_after_coords[OF assms(1)] read_bonds_reached[OF assms(2,3,4)]
        read_bond_order_def appendError_def failWith_def isArray_def)

theorem index_not_array_is_warning_witness:
  "lookup_path doc_index_string [''bonds'', ''connections'', ''index''] = Some (JString ''none'') \<and>
   \<not> isArray (JString ''none'') \<and>
   read example_env (Parsed doc_index_string) start =
     Returned True \<lparr>errors = [''Warning, no bonding information found.''], mol = water_atoms\<rparr> \<and>
   member_of (member_of doc_index_string_order ''bonds'') ''order'' = JArray [JInt 1] \<and>
   (\<exists>st. read example_env (Parsed doc_index_string_order) start = Returned False st)"
  using index_not_array_is_warning
          [of example_env doc_index_string start "\<lparr>errors = [], mol = water_atoms\<rparr>"
              "JObject [(''connections'', JObject [(''index'', JString ''none'')])]"
              "JObject [(''index'', JString ''none'')]" "JString ''none''"]
        index_not_array_is_warning
          [of example_env doc_index_string_order start "\<lparr>errors = [], mol = water_atoms\<rparr>"
              "JObject [(''connections'', JObject [(''index'', JString ''none'')]),
                        (''order'', JArray [JInt 1])]"
              "JObject [(''index'', JString ''none'')]" "JString ''none''"]
  by (simp add: read_blocks value_ops molecule_ops examples)

text \<open>
  C9: the decoder never compares a bond's atom indices with the atom count. Decoding has
  reached the bonds, \<^verbatim>\<open>bonds.connections.index\<close> is an array of 32-bit integers and
  \<^verbatim>\<open>bonds.order\<close> is not an array. Then, whatever the integers are (beyond the atom count,
  negative) and whatever the atom count is, decoding returns success, the error log is
  the one it had, and every pair, cast to \<^verbatim>\<open>Index\<close>, has become a bond.
\<close>

theorem bond_indices_unchecked:
  assumes "read_to_coords e doc st0 = Continue st"
      and "lookup_key doc ''bonds'' = Some b"
      and "lookup_key b ''connections'' = Some c"
      and "lookup_key c ''index'' = Some (JArray (map JInt ns))"
      and "\<forall>n\<in>set ns. minInt \<le> n \<and> n \<le> maxInt"
      and "\<not> isArray (member_of b ''order'')"
  shows "read e (Parsed doc) st0 =
           Returned True
             (st\<lparr>mol := (mol st)\<lparr>bonds := bonds (mol st) @
                map (\<lambda>k. \<lparr>atom1 = to_Index (ns ! (2 * k)), atom2 = to_Index (ns ! (2 * k + 1)),
                          bond_order = 1\<rparr>)
                    [0..<length ns div 2]\<rparr>\<rparr>)"
proof -
  have conv: "\<forall>x\<in>set (map JInt ns). asInt x \<noteq> None"
    using assms(5) by auto
  have "map (bond_of_pair (map JInt ns)) [0..<length ns div 2] =
        map (\<lambda>k. \<lparr>atom1 = to_Index (ns ! (2 * k)), atom2 = to_Index (ns ! (2 * k + 1)),
                  bond_order = 1\<rparr>) [0..<length ns div 2]"
  proof (rule map_cong[OF refl])
    fix k assume "k \<in> set [0..<length ns div 2]"
    then have lt: "2 * k < length ns" "2 * k + 1 < length ns" by auto
    then have "minInt \<le> ns ! (2 * k) \<and> ns ! (2 * k) \<le> maxInt"
              "minInt \<le> ns ! (2 * k + 1) \<and> ns ! (2 * k + 1) \<le> maxInt"
      using assms(5) nth_mem by blast+
    with lt show "bond_of_pair (map JInt ns) k =
       \<lparr>atom1 = to_Index (ns ! (2 * k)), atom2 = to_Index (ns ! (2 * k + 1)), bond_order = 1\<rparr>"
      by (simp add: bond_of_pair_def int_of_def)
  qed
  then show ?thesis
    using read_bond_index_array[OF conv, of st] assms(6)
    by (simp add: read_after_coords[OF assms(1)] read_bonds_reached[OF assms(2,3,4)]
          read_bond_order_def)
qed

theorem bond_indices_unchecked_witness:
  "atomCount water_atoms = 3 \<and>
   read_to_coords example_env doc_wild_bonds start = Continue \<lparr>errors = [], mol = water_atoms\<rparr> \<and>
   read example_env (Parsed doc_wild_bonds) start =
     Returned True
       \<lparr>errors = [],
        mol = water_atoms\<lparr>bonds := [\<lparr>atom1 = 0, atom2 = 7, bond_order = 1\<rparr>,
                                     \<lparr>atom1 = 2 ^ 64 - 1, atom2 = 1, bond_order = 1\<rparr>]\<rparr>\<rparr>"
  using bond_indices_unchecked
          [of example_env doc_wild_bonds start "\<lparr>errors = [], mol = water_atoms\<rparr>"
              "JObject [(''connections'', JObject [(''index'', JArray (map JInt [0, 7, - 1, 1]))])]"
              "JObject [(''index'', JArray (map JInt [0, 7, - 1, 1]))]"
              "[0, 7, - 1, 1]"]
  by (simp add: read_blocks value_ops molecule_ops examples atomCount_def)


section \<open>Properties of the encoder\<close>

lemma lookup_set_member:
  "objnull v \<Longrightarrow> lookup_key (set_member v k x) k' = (if k' = k then Some x else lookup_key v k')"
  by (cases v) (auto simp: objnull_def isObject_def update_conv')

lemma isObject_set_member: "objnull v \<Longrightarrow> isObject (set_member v k x)"
  by (cases v) (auto simp: objnull_def isObject_def)

lemma objnull_isObject: "isObject v \<Longrightarrow> objnull v"
  by (simp add: objnull_def)

lemma write_string_data_lookup:
  "isObject doc \<Longrightarrow> isObject (write_string_data key m doc) \<and>
     (k \<noteq> key \<longrightarrow> lookup_key (write_string_data key m doc) k = lookup_key doc k)"
  by (auto simp: write_string_data_def lookup_set_member isObject_set_member objnull_isObject
           split: variant.splits)


lemma write_basis_lookup:
  "isObject doc \<Longrightarrow> isObject (write_basis m doc) \<and>
     (k \<noteq> ''basisSet'' \<longrightarrow> lookup_key (write_basis m doc) k = lookup_key doc k)"
  by (auto simp: write_basis_def lookup_set_member isObject_set_member objnull_isObject
           split: option.splits basis_set.splits)

lemma write_bonds_lookup:
  "isObject doc \<Longrightarrow> k \<noteq> ''bonds'' \<Longrightarrow> lookup_key (write_bonds m doc) k = lookup_key doc k"
  by (auto simp: write_bonds_def lookup_set_member isObject_set_member objnull_isObject)

lemma write_atoms_lookup:
  "isObject doc \<Longrightarrow> k \<noteq> ''atoms'' \<Longrightarrow> lookup_key (write_atoms e m doc) k = lookup_key doc k"
  by (auto simp: write_atoms_def write_coords3d_def write_coords2d_def lookup_set_member
        isObject_set_member objnull_isObject split: option.splits)

lemma write_atoms_object: "isObject doc \<Longrightarrow> isObject (write_atoms e m doc)"
  by (auto simp: write_atoms_def write_coords3d_def write_coords2d_def isObject_set_member
        objnull_isObject split: option.splits)

text \<open>The document before the atoms are written: an object without an \<^verbatim>\<open>atoms\<close> member,
  whose \<^verbatim>\<open>unit cell\<close> member is the cell of the molecule.\<close>

lemma write_head_members:
  "isObject (write_head e m) \<and>
   lookup_key (write_head e m) ''atoms'' = None \<and>
   lookup_key (write_head e m) ''unit cell'' =
     (case unitCell m of
        None \<Rightarrow> None
      | Some uc \<Rightarrow> Some (JObject [(''a'', JReal (cell_a uc)),
                      (''b'', JReal (cell_b uc)),
                      (''c'', JReal (cell_c uc)),
                      (''alpha'', JReal (cell_alpha uc * RAD_TO_DEG e)),
                      (''beta'', JReal (cell_beta uc * RAD_TO_DEG e)),
                      (''gamma'', JReal (cell_gamma uc * RAD_TO_DEG e))]))"
proof -
  let ?d0 = "set_member JNull ''chemical json'' (JInt 0)"
  have 0: "isObject ?d0 \<and> lookup_key ?d0 ''atoms'' = None \<and> lookup_key ?d0 ''unit cell'' = None"
    by (simp add: isObject_def)
  let ?d1 = "write_string_data ''name'' m ?d0"
  have 1: "isObject ?d1 \<and> lookup_key ?d1 ''atoms'' = None \<and> lookup_key ?d1 ''unit cell'' = None"
    using 0 write_string_data_lookup[of ?d0 "''name''" m "''atoms''"]
      write_string_data_lookup[of ?d0 "''name''" m "''unit cell''"] by simp
  let ?d2 = "write_string_data ''inchi'' m ?d1"
  have 2: "isObject ?d2 \<and> lookup_key ?d2 ''atoms'' = None \<and> lookup_key ?d2 ''unit cell'' = None"
    using 1 write_string_data_lookup[of ?d1 "''inchi''" m "''atoms''"]
      write_string_data_lookup[of ?d1 "''inchi''" m "''unit cell''"] by simp
  let ?d3 = "write_unit_cell e m ?d2"
  have 3: "isObject ?d3 \<and> lookup_key ?d3 ''atoms'' = None \<and>
     lookup_key ?d3 ''unit cell'' =
     (case unitCell m of
        None \<Rightarrow> None
      | Some uc \<Rightarrow> Some (JObject [(''a'', JReal (cell_a uc)),
                      (''b'', JReal (cell_b uc)),
                      (''c'', JReal (cell_c uc)),
                      (''alpha'', JReal (cell_alpha uc * RAD_TO_DEG e)),
                      (''beta'', JReal (cell_beta uc * RAD_TO_DEG e)),
                      (''gamma'', JReal (cell_gamma uc * RAD_TO_DEG e))]))"
    using 2 by (auto simp: write_unit_cell_def lookup_set_member isObject_set_member
          objnull_isObject split: option.splits)
  show ?thesis
    using 3 write_basis_lookup[of ?d3 m "''atoms''"] write_basis_lookup[of ?d3 m "''unit cell''"]
    by (simp add: write_head_def)
qed

lemma write_atoms_coords:
  assumes "isObject doc" "lookup_key doc ''atoms'' = None"
  shows "lookup_path (write_atoms e m doc) [''atoms'', ''coords'', ''3d''] =
           (if atomCount m \<noteq> 0 \<and> length (positions3d m) = atomCount m \<and> unitCell m = None
            then Some (JArray (flatten3 (positions3d m))) else None)"
    and "lookup_path (write_atoms e m doc) [''atoms'', ''coords'', ''3d fractional''] =
           (case unitCell m of
              Some uc \<Rightarrow>
                if atomCount m \<noteq> 0 \<and> length (positions3d m) = atomCount m
                then Some (JArray (flatten3 (fractionalCoordinates e uc (positions3d m))))
                else None
            | None \<Rightarrow> None)"
proof -
  from assms obtain kvs where doc: "doc = JObject kvs" and no: "map_of kvs ''atoms'' = None"
    by (cases doc) (simp_all add: isObject_def)
  note defs = write_atoms_def write_coords3d_def write_coords2d_def doc member_of_object
    update_conv' no
  show "lookup_path (write_atoms e m doc) [''atoms'', ''coords'', ''3d''] =
           (if atomCount m \<noteq> 0 \<and> length (positions3d m) = atomCount m \<and> unitCell m = None
            then Some (JArray (flatten3 (positions3d m))) else None)"
    by (cases "unitCell m") (simp_all add: defs)
  show "lookup_path (write_atoms e m doc) [''atoms'', ''coords'', ''3d fractional''] =
           (case unitCell m of
              Some uc \<Rightarrow>
                if atomCount m \<noteq> 0 \<and> length (positions3d m) = atomCount m
                then Some (JArray (flatten3 (fractionalCoordinates e uc (positions3d m))))
                else None
            | None \<Rightarrow> None)"
    by (cases "unitCell m") (simp_all add: defs)
qed

lemma write_root_coords:
  "lookup_path (write_root e m) [''atoms'', ''coords'', ''3d''] =
           (if atomCount m \<noteq> 0 \<and> length (positions3d m) = atomCount m \<and> unitCell m = None
            then Some (JArray (flatten3 (positions3d m))) else None)"
  "lookup_path (write_root e m) [''atoms'', ''coords'', ''3d fractional''] =
           (case unitCell m of
              Some uc \<Rightarrow>
                if atomCount m \<noteq> 0 \<and> length (positions3d m) = atomCount m
                then Some (JArray (flatten3 (fractionalCoordinates e uc (positions3d m))))
                else None
            | None \<Rightarrow> None)"
proof -
  have obj: "isObject (write_atoms e m (write_head e m))"
    using write_head_members by (simp add: write_atoms_object)
  have eq: "lookup_path (write_root e m) (''atoms'' # ks) =
        lookup_path (write_atoms e m (write_head e m)) (''atoms'' # ks)" for ks
    using write_bonds_lookup[OF obj, of "''atoms''"] by (simp add: write_root_def)
  show "lookup_path (write_root e m) [''atoms'', ''coords'', ''3d''] =
           (if atomCount m \<noteq> 0 \<and> length (positions3d m) = atomCount m \<and> unitCell m = None
            then Some (JArray (flatten3 (positions3d m))) else None)"
    unfolding eq using write_head_members by (intro write_atoms_coords(1)) simp_all
  show "lookup_path (write_root e m) [''atoms'', ''coords'', ''3d fractional''] =
           (case unitCell m of
              Some uc \<Rightarrow>
                if atomCount m \<noteq> 0 \<and> length (positions3d m) = atomCount m
                then Some (JArray (flatten3 (fractionalCoordinates e uc (positions3d m))))
                else None
            | None \<Rightarrow> None)"
    unfolding eq using write_head_members by (intro write_atoms_coords(2)) simp_all
qed

lemma write_root_unit_cell:
  "lookup_path (write_root e m) [''unit cell'', k] =
     (case unitCell m of
        None \<Rightarrow> None
      | Some u \<Rightarrow>
         map_of [(''a'', JReal (cell_a u)), (''b'', JReal (cell_b u)), (''c'', JReal (cell_c u)),
                 (''alpha'', JReal (cell_alpha u * RAD_TO_DEG e)),
                 (''beta'', JReal (cell_beta u * RAD_TO_DEG e)),
                 (''gamma'', JReal (cell_gamma u * RAD_TO_DEG e))] k)"
proof -
  have "lookup_key (write_root e m) ''unit cell'' = lookup_key (write_head e m) ''unit cell''"
    using write_head_members[of e m]
    by (simp add: write_root_def write_bonds_lookup write_atoms_lookup write_atoms_object)
  then show ?thesis
    using write_head_members[of e m] by (simp split: option.splits)
qed

subsection \<open>The 3D coordinates\<close>

text \<open>
  C7, as the specification states it: for every molecule all of whose atoms have a 3D
  position the encoder emits exactly one of \<^verbatim>\<open>3d fractional\<close> and \<^verbatim>\<open>3d\<close>. The molecule
  without atoms has a position for each of its atoms, and the encoder, which writes the
  atoms block only when there is an atom, emits neither.
\<close>

theorem no_atoms_no_coords:
  "length (positions3d emptyMolecule) = atomCount emptyMolecule \<and>
   \<not> has_path (snd (write_cjson example_env emptyMolecule)) [''atoms'', ''coords'', ''3d''] \<and>
   \<not> has_path (snd (write_cjson example_env emptyMolecule))
        [''atoms'', ''coords'', ''3d fractional'']"
  unfolding has_path_def write_cjson_def snd_conv write_root_coords
  by (simp add: atomCount_def emptyMolecule_def)

text \<open>
  C7, amended: for every molecule with at least one atom and a 3D position for each atom
  the encoder emits \<^verbatim>\<open>atoms.coords.3d fractional\<close> exactly when a unit cell is attached, and
  \<^verbatim>\<open>atoms.coords.3d\<close> exactly when none is; and for every molecule whatsoever the emitted
  document never contains both keys.
\<close>

theorem coords3d_exclusive:
  "(atomCount m \<noteq> 0 \<and> length (positions3d m) = atomCount m \<longrightarrow>
      (has_path (snd (write_cjson e m)) [''atoms'', ''coords'', ''3d fractional'']
         \<longleftrightarrow> unitCell m \<noteq> None) \<and>
      (has_path (snd (write_cjson e m)) [''atoms'', ''coords'', ''3d'']
         \<longleftrightarrow> unitCell m = None))
   \<and> \<not> (has_path (snd (write_cjson e m)) [''atoms'', ''coords'', ''3d fractional''] \<and>
        has_path (snd (write_cjson e m)) [''atoms'', ''coords'', ''3d''])"
  unfolding has_path_def write_cjson_def snd_conv write_root_coords
  by (auto split: option.splits)

theorem coords3d_exclusive_witness:
  "atomCount carbon_atom \<noteq> 0 \<and> length (positions3d carbon_atom) = atomCount carbon_atom \<and>
   unitCell carbon_atom = None \<and>
   has_path (snd (write_cjson example_env carbon_atom)) [''atoms'', ''coords'', ''3d''] \<and>
   \<not> has_path (snd (write_cjson example_env carbon_atom))
        [''atoms'', ''coords'', ''3d fractional''] \<and>
   atomCount carbon_in_cell \<noteq> 0 \<and>
   length (positions3d carbon_in_cell) = atomCount carbon_in_cell \<and>
   unitCell carbon_in_cell \<noteq> None \<and>
   has_path (snd (write_cjson example_env carbon_in_cell))
        [''atoms'', ''coords'', ''3d fractional''] \<and>
   \<not> has_path (snd (write_cjson example_env carbon_in_cell)) [''atoms'', ''coords'', ''3d'']"
  using coords3d_exclusive [of carbon_atom example_env]
        coords3d_exclusive [of carbon_in_cell example_env]
  by (simp add: carbon_atom_def carbon_in_cell_def emptyMolecule_def atomCount_def)

subsection \<open>The angles of the unit cell\<close>

lemma asDouble_numeric: "isNumeric v \<Longrightarrow> asDouble v = Some (double_of v)"
  by (cases v) (simp_all add: isNumeric_def double_of_def)

lemma read_unit_cell_object:
  assumes "type_of (member_of doc ''unit cell'') = objectValue"
      and "\<forall>k\<in>set [''a'', ''b'', ''c'', ''alpha'', ''beta'', ''gamma''].
             isNumeric (member_of (member_of doc ''unit cell'') k)"
  shows "read_unit_cell e doc st =
           Continue (st\<lparr>mol := (mol st)\<lparr>unitCell := Some
             \<lparr>cell_a = double_of (member_of (member_of doc ''unit cell'') ''a''),
              cell_b = double_of (member_of (member_of doc ''unit cell'') ''b''),
              cell_c = double_of (member_of (member_of doc ''unit cell'') ''c''),
              cell_alpha =
                double_of (member_of (member_of doc ''unit cell'') ''alpha'') * DEG_TO_RAD e,
              cell_beta =
                double_of (member_of (member_of doc ''unit cell'') ''beta'') * DEG_TO_RAD e,
              cell_gamma =
                double_of (member_of (member_of doc ''unit cell'') ''gamma'') * DEG_TO_RAD e\<rparr>\<rparr>\<rparr>)"
  using assms by (simp add: read_unit_cell_def Let_def asDouble_numeric setUnitCell_def)

text \<open>
  C8: the document's \<^verbatim>\<open>unit cell\<close> is an object with six numeric fields. Then decoding
  attaches a cell whose alpha, beta and gamma are the document's values multiplied by
  \<^verbatim>\<open>DEG_TO_RAD\<close>; and for every molecule with a cell the encoder writes each angle
  multiplied by \<^verbatim>\<open>RAD_TO_DEG\<close>. With the factors \<open>pi / 180\<close> and \<open>180 / pi\<close>, an alpha of 90 in
  the document is \<open>pi / 2\<close> in the molecule and 90 again in the document encoded from it.
  (\<^verbatim>\<open>Real\<close> is \<open>real\<close> here, so that the last two equations are exact.)
\<close>

theorem unit_cell_angle_conversion:
  assumes "lookup_key doc ''unit cell'' = Some uc"
      and "type_of uc = objectValue"
      and "\<forall>k\<in>set [''a'', ''b'', ''c'', ''alpha'', ''beta'', ''gamma'']. isNumeric (member_of uc k)"
      and "unitCell m = Some c"
  shows "(\<exists>c'. read_unit_cell e doc st = Continue (st\<lparr>mol := (mol st)\<lparr>unitCell := Some c'\<rparr>\<rparr>) \<and>
            cell_alpha c' = double_of (member_of uc ''alpha'') * DEG_TO_RAD e \<and>
            cell_beta c' = double_of (member_of uc ''beta'') * DEG_TO_RAD e \<and>
            cell_gamma c' = double_of (member_of uc ''gamma'') * DEG_TO_RAD e \<and>
            (DEG_TO_RAD e = pi / 180 \<and> RAD_TO_DEG e = 180 / pi \<and>
             double_of (member_of uc ''alpha'') = 90 \<longrightarrow>
               cell_alpha c' = pi / 2 \<and>
               lookup_path (snd (write_cjson e ((mol st)\<lparr>unitCell := Some c'\<rparr>)))
                  [''unit cell'', ''alpha''] = Some (JReal 90)))
       \<and> lookup_path (snd (write_cjson e m)) [''unit cell'', ''alpha''] =
             Some (JReal (cell_alpha c * RAD_TO_DEG e))
       \<and> lookup_path (snd (write_cjson e m)) [''unit cell'', ''beta''] =
             Some (JReal (cell_beta c * RAD_TO_DEG e))
       \<and> lookup_path (snd (write_cjson e m)) [''unit cell'', ''gamma''] =
             Some (JReal (cell_gamma c * RAD_TO_DEG e))"
proof -
  have uc: "member_of doc ''unit cell'' = uc"
    using assms(1) by (rule member_of_lookup)
  note enc = write_root_unit_cell
  define c' where "c' = \<lparr>cell_a = double_of (member_of uc ''a''),
              cell_b = double_of (member_of uc ''b''),
              cell_c = double_of (member_of uc ''c''),
              cell_alpha = double_of (member_of uc ''alpha'') * DEG_TO_RAD e,
              cell_beta = double_of (member_of uc ''beta'') * DEG_TO_RAD e,
              cell_gamma = double_of (member_of uc ''gamma'') * DEG_TO_RAD e\<rparr>"
  have dec: "read_unit_cell e doc st = Continue (st\<lparr>mol := (mol st)\<lparr>unitCell := Some c'\<rparr>\<rparr>)"
    using read_unit_cell_object[of doc e st] assms(2,3) by (simp add: uc c'_def)
  have ex: "cell_alpha c' = pi / 2 \<and>
        lookup_path (snd (write_cjson e ((mol st)\<lparr>unitCell := Some c'\<rparr>)))
           [''unit cell'', ''alpha''] = Some (JReal 90)"
    if "DEG_TO_RAD e = pi / 180 \<and> RAD_TO_DEG e = 180 / pi \<and>
        double_of (member_of uc ''alpha'') = 90"
  proof -
    from that have d: "DEG_TO_RAD e = pi / 180" and r: "RAD_TO_DEG e = 180 / pi"
      and a: "double_of (member_of uc ''alpha'') = 90" by simp_all
    have half: "cell_alpha c' = pi / 2"
      by (simp add: c'_def d a)
    have deg90: "cell_alpha c' * RAD_TO_DEG e = 90"
      by (simp add: half r)
    show ?thesis
      unfolding write_cjson_def snd_conv enc using half deg90 by simp
  qed
  have wr: "lookup_path (snd (write_cjson e m)) [''unit cell'', ''alpha''] =
             Some (JReal (cell_alpha c * RAD_TO_DEG e))"
      "lookup_path (snd (write_cjson e m)) [''unit cell'', ''beta''] =
             Some (JReal (cell_beta c * RAD_TO_DEG e))"
      "lookup_path (snd (write_cjson e m)) [''unit cell'', ''gamma''] =
             Some (JReal (cell_gamma c * RAD_TO_DEG e))"
    unfolding write_cjson_def snd_conv enc using assms(4) by simp_all
  have "\<exists>c'. read_unit_cell e doc st = Continue (st\<lparr>mol := (mol st)\<lparr>unitCell := Some c'\<rparr>\<rparr>) \<and>
            cell_alpha c' = double_of (member_of uc ''alpha'') * DEG_TO_RAD e \<and>
            cell_beta c' = double_of (member_of uc ''beta'') * DEG_TO_RAD e \<and>
            cell_gamma c' = double_of (member_of uc ''gamma'') * DEG_TO_RAD e \<and>
            (DEG_TO_RAD e = pi / 180 \<and> RAD_TO_DEG e = 180 / pi \<and>
             double_of (member_of uc ''alpha'') = 90 \<longrightarrow>
               cell_alpha c' = pi / 2 \<and>
               lookup_path (snd (write_cjson e ((mol st)\<lparr>unitCell := Some c'\<rparr>)))
                  [''unit cell'', ''alpha''] = Some (JReal 90))"
    using dec ex by (intro exI[of _ c']) (simp add: c'_def)
  with wr show ?thesis by blast
qed

theorem unit_cell_angle_conversion_witness:
  "lookup_key doc_cell_90 ''unit cell'' = Some cell_90 \<and>
   double_of (member_of cell_90 ''alpha'') = 90 \<and>
   DEG_TO_RAD example_env = pi / 180 \<and> RAD_TO_DEG example_env = 180 / pi \<and>
   read_unit_cell example_env doc_cell_90 start =
     Continue (start\<lparr>mol := (mol start)\<lparr>unitCell := Some right_cell\<rparr>\<rparr>) \<and>
   cell_alpha right_cell = pi / 2 \<and>
   lookup_path (snd (write_cjson example_env ((mol start)\<lparr>unitCell := Some right_cell\<rparr>)))
      [''unit cell'', ''alpha''] = Some (JReal 90) \<and>
   lookup_path (snd (write_cjson example_env carbon_in_cell)) [''unit cell'', ''beta'']
      = Some (JReal 90)"
proof -
  have dec: "read_unit_cell example_env doc_cell_90 start =
     Continue (start\<lparr>mol := (mol start)\<lparr>unitCell := Some right_cell\<rparr>\<rparr>)"
    by (simp add: read_blocks value_ops molecule_ops examples)
  have hyps: "lookup_key doc_cell_90 ''unit cell'' = Some cell_90" "type_of cell_90 = objectValue"
    "\<forall>k\<in>set [''a'', ''b'', ''c'', ''alpha'', ''beta'', ''gamma'']. isNumeric (member_of cell_90 k)"
    "unitCell carbon_in_cell = Some right_cell"
    by (simp_all add: examples value_ops)
  have vals: "double_of (member_of cell_90 ''alpha'') = 90"
    "DEG_TO_RAD example_env = pi / 180" "RAD_TO_DEG example_env = 180 / pi"
    "cell_alpha right_cell = pi / 2"
    by (simp_all add: examples value_ops double_of_def)
  have enc: "lookup_path (snd (write_cjson example_env ((mol start)\<lparr>unitCell := Some right_cell\<rparr>)))
      [''unit cell'', ''alpha''] = Some (JReal 90)"
    "lookup_path (snd (write_cjson example_env carbon_in_cell)) [''unit cell'', ''beta'']
      = Some (JReal 90)"
    unfolding write_cjson_def snd_conv write_root_unit_cell
    by (simp_all add: examples)
  from unit_cell_angle_conversion [OF hyps, of example_env start]
  show ?thesis
    using dec hyps(1) vals enc by blast
qed


section \<open>The round trip\<close>

subsection \<open>The loops of the decoder on the arrays of the encoder\<close>















subsection \<open>The document of the encoder, member by member\<close>










subsection \<open>Decoding the document of the encoder, block by block\<close>












subsection \<open>The molecules that decoding produces\<close>

















subsection \<open>What each block changes\<close>































subsection \<open>Encoding and decoding again\<close>




end
